theory Spec2Isabelle
  imports Complex_Main "HOL-Library.AList" "HOL-Library.Monad_Syntax"
begin

section \<open>The advanced knowledge-graph client (examples/python/advanced_client.py)\<close>

text \<open>
  A shallow embedding of \<^verbatim>\<open>ClientStats\<close>, of the payload builders
  \<^verbatim>\<open>search_knowledge\<close> and \<^verbatim>\<open>process_knowledge\<close>, of the request function
  \<^verbatim>\<open>_make_request\<close> together with its \<^verbatim>\<open>tenacity\<close> decorator, and of
  \<^verbatim>\<open>process_batch\<close>.

  Conventions of the model:
  \<^item> Python exceptions are values of the type \<open>exn\<close>; a function that may raise returns
    \<open>exn + 'a\<close> with \<open>Inl\<close> for the raised exception.
  \<^item> \<^verbatim>\<open>time.time()\<close> reads the field \<open>now\<close> of the client record. Time passes only
    during an HTTP exchange (by the latency the transport reports) and during a sleep.
    Durations are exact reals; the rounding of binary floating point is not modelled.
  \<^item> The HTTP server is a script \<open>tr\<close>: the outcome of the \<open>n\<close>-th exchange performed
    by the client. The requests sent are logged in the field \<open>sent\<close>.
  \<^item> A call that never returns (a server that answers 429 for ever, a semaphore that is
    never released) has the value \<open>None\<close>.
\<close>

subsection \<open>Exceptions\<close>

datatype exn =
    ClientConnectionError          \<comment> \<open>an \<^verbatim>\<open>aiohttp.ClientError\<close> raised by the exchange\<close>
  | TimeoutError                   \<comment> \<open>\<^verbatim>\<open>asyncio.TimeoutError\<close>\<close>
  | ClientResponseError int string \<comment> \<open>status and message; a subclass of \<^verbatim>\<open>aiohttp.ClientError\<close>\<close>
  | RuntimeError string
  | ValueError string
  | OverflowError string
  | ZeroDivisionError
  | RetryError exn                 \<comment> \<open>\<^verbatim>\<open>tenacity.RetryError\<close> wrapping the last attempt's exception\<close>

subsection \<open>ClientStats\<close>

record client_stats =
  requests :: int
  errors :: int
  total_time :: real
  retries :: int

definition ClientStats :: client_stats where
  "ClientStats = \<lparr>requests = 0, errors = 0, total_time = 0, retries = 0\<rparr>"

definition truediv :: "real \<Rightarrow> real \<Rightarrow> exn + real" where
  \<comment> \<open>Python's \<^verbatim>\<open>/\<close>: raises on a zero divisor, where HOL's division returns 0.\<close>
  "truediv a b = (if b = 0 then Inl ZeroDivisionError else Inr (a / b))"

definition average_response_time :: "client_stats \<Rightarrow> exn + real" where
  "average_response_time s =
     (if requests s > 0 then truediv (total_time s) (of_int (requests s)) else Inr 0)"

definition error_rate :: "client_stats \<Rightarrow> exn + real" where
  "error_rate s =
     (if requests s > 0
      then (case truediv (of_int (errors s)) (of_int (requests s)) of
              Inl e \<Rightarrow> Inl e
            | Inr q \<Rightarrow> Inr (q * 100))
      else Inr 0)"

definition round_half_even :: "real \<Rightarrow> int" where
  "round_half_even y =
     (let f = \<lfloor>y\<rfloor>; d = y - of_int f
      in if d < 1 / 2 then f else if 1 / 2 < d then f + 1 else if even f then f else f + 1)"

definition py_round :: "real \<Rightarrow> nat \<Rightarrow> real" where
  \<comment> \<open>\<^verbatim>\<open>round(x, ndigits)\<close> on exact reals.\<close>
  "py_round x ndigits = of_int (round_half_even (x * 10 ^ ndigits)) / 10 ^ ndigits"

record performance_stats =
  ps_total_requests :: int
  ps_total_errors :: int
  ps_total_retries :: int
  ps_average_response_time :: real
  ps_error_rate :: real
  ps_total_time :: real

subsection \<open>Requests, responses and the client\<close>

datatype pyval =
    PStr string
  | PInt int
  | PFloat real
  | PBool bool
  | PStrList "string list"

type_synonym pydict = "(string \<times> pyval) list"
  \<comment> \<open>a Python dict of the payload: keys in insertion order, no key twice\<close>

record request =
  req_method :: string
  req_url :: string
  req_json :: "pydict option"

record error_descr =
  message :: "string option"
  code :: "string option"

record envelope =
  success :: "bool option"        \<comment> \<open>\<open>None\<close>: the key is absent\<close>
  error :: "error_descr option"
  data :: "string option"         \<comment> \<open>the payload, opaque\<close>

record response =
  status :: int
  retry_after :: "string option"  \<comment> \<open>\<^verbatim>\<open>response.headers.get('Retry-After')\<close>\<close>
  body :: envelope                \<comment> \<open>\<^verbatim>\<open>await response.json()\<close>\<close>

datatype outcome =
    Raises real exn       \<comment> \<open>the exchange raised after the given time\<close>
  | Reply real response   \<comment> \<open>a response arrived and its JSON body was read, after the given time\<close>

type_synonym transport = "nat \<Rightarrow> outcome"

datatype payload = Data string | Whole envelope

record client =
  base_url :: string
  max_retries :: int      \<comment> \<open>stored by \<^verbatim>\<open>__init__\<close>; \<^verbatim>\<open>_make_request\<close> does not read it\<close>
  retry_delay :: real     \<comment> \<open>stored by \<^verbatim>\<open>__init__\<close>; \<^verbatim>\<open>_make_request\<close> does not read it\<close>
  stats :: client_stats
  now :: real             \<comment> \<open>the clock read by \<^verbatim>\<open>time.time()\<close>\<close>
  sent :: "request list"  \<comment> \<open>the exchanges performed so far\<close>

subsection \<open>Strings and integers\<close>

definition digit_char :: "nat \<Rightarrow> char" where
  "digit_char d = char_of (of_char (CHR ''0'') + d)"

fun str_nat :: "nat \<Rightarrow> string" where
  "str_nat n = (if n < 10 then [digit_char n] else str_nat (n div 10) @ [digit_char (n mod 10)])"

declare str_nat.simps [simp del]

definition str_int :: "int \<Rightarrow> string" where
  "str_int i = (if i < 0 then CHR ''-'' # str_nat (nat (- i)) else str_nat (nat i))"

definition is_space :: "char \<Rightarrow> bool" where
  \<comment> \<open>the whitespace \<^verbatim>\<open>int()\<close> skips around an ASCII literal\<close>
  "is_space c = (c \<in> set [CHR '' '', CHR 0x09, CHR 0x0A, CHR 0x0B, CHR 0x0C, CHR 0x0D])"

definition digit_val :: "char \<Rightarrow> nat option" where
  "digit_val c =
     (let k = (of_char c :: nat)
      in if 48 \<le> k \<and> k \<le> 57 then Some (k - 48) else None)"

definition hex_digit :: "nat \<Rightarrow> char" where
  "hex_digit d = (if d < 10 then digit_char d else char_of (of_char (CHR ''a'') + (d - 10)))"

definition repr_char :: "char \<Rightarrow> char \<Rightarrow> string" where
  "repr_char q c =
     (let k = (of_char c :: nat)
      in if c = q \<or> c = CHR 0x5C then [CHR 0x5C, c]
         else if c = CHR 0x09 then [CHR 0x5C, CHR ''t'']
         else if c = CHR 0x0A then [CHR 0x5C, CHR ''n'']
         else if c = CHR 0x0D then [CHR 0x5C, CHR ''r'']
         else if k < 32 \<or> k = 127
           then [CHR 0x5C, CHR ''x'', hex_digit (k div 16), hex_digit (k mod 16)]
         else [c])"

definition py_repr :: "string \<Rightarrow> string" where
  \<comment> \<open>\<^verbatim>\<open>repr(s)\<close> of an ASCII string\<close>
  "py_repr s =
     (let q = (if CHR 0x27 \<in> set s \<and> CHR 0x22 \<notin> set s then CHR 0x22 else CHR 0x27)
      in q # concat (map (repr_char q) s) @ [q])"

definition invalid_literal :: "string \<Rightarrow> exn" where
  \<comment> \<open>the format \<^verbatim>\<open>%.200R\<close> keeps 200 characters of the repr\<close>
  "invalid_literal s =
     ValueError (''invalid literal for int() with base 10: '' @ take 200 (py_repr s))"

definition too_many_digits :: "nat \<Rightarrow> exn" where
  "too_many_digits n =
     ValueError (''Exceeds the limit (4300 digits) for integer string conversion: value has ''
                 @ str_nat n
                 @ '' digits; use sys.set_int_max_str_digits() to increase the limit'')"

fun scan_digits :: "bool \<Rightarrow> nat \<Rightarrow> int \<Rightarrow> string \<Rightarrow> (int \<times> nat \<times> string) option" where
  \<comment> \<open>the run of digits and underscores at the start: its value, its number of digits
      and what follows it; \<open>None\<close> when two underscores meet or one ends the run\<close>
  "scan_digits prev n acc [] = (if prev then None else Some (acc, n, []))"
| "scan_digits prev n acc (c # cs) =
     (if c = CHR ''_'' then (if prev then None else scan_digits True n acc cs)
      else (case digit_val c of
              Some v \<Rightarrow> scan_digits False (Suc n) (10 * acc + int v) cs
            | None \<Rightarrow> if prev then None else Some (acc, n, c # cs)))"

definition py_int :: "string \<Rightarrow> exn + int" where
  \<comment> \<open>\<^verbatim>\<open>int(s)\<close> of CPython 3.11 and later for an ASCII string: leading whitespace, an
      optional sign, decimal digits with single underscores between them, at most 4300
      digits, trailing whitespace; anything else raises \<^verbatim>\<open>ValueError\<close>.\<close>
  "py_int s =
     (let t = dropWhile is_space s;
          (negative, u) = (case t of
                             [] \<Rightarrow> (False, [])
                           | c # cs \<Rightarrow>
                               if c = CHR ''-'' then (True, cs)
                               else if c = CHR ''+'' then (False, cs)
                               else (False, t))
      in if u \<noteq> [] \<and> hd u = CHR ''_'' then Inl (invalid_literal s)
         else (case scan_digits False 0 0 u of
                 None \<Rightarrow> Inl (invalid_literal s)
               | Some (v, n, rest) \<Rightarrow>
                   if 4300 < n then Inl (too_many_digits n)
                   else if n = 0 then Inl (invalid_literal s)
                   else if dropWhile is_space rest \<noteq> [] then Inl (invalid_literal s)
                   else Inr (if negative then - v else v)))"

subsection \<open>Payload builders\<close>

definition truthy_str :: "string option \<Rightarrow> bool" where
  \<comment> \<open>\<^verbatim>\<open>if x:\<close> for an \<^verbatim>\<open>Optional[str]\<close>\<close>
  "truthy_str x = (case x of None \<Rightarrow> False | Some s \<Rightarrow> s \<noteq> [])"

definition truthy_list :: "'a list option \<Rightarrow> bool" where
  \<comment> \<open>\<^verbatim>\<open>if x:\<close> for an \<^verbatim>\<open>Optional[List[...]]\<close>\<close>
  "truthy_list x = (case x of None \<Rightarrow> False | Some xs \<Rightarrow> xs \<noteq> [])"

definition dict_set :: "string \<Rightarrow> pyval \<Rightarrow> pydict \<Rightarrow> pydict" where
  \<comment> \<open>\<^verbatim>\<open>d[k] = v\<close>: replaces the value in place or appends the key\<close>
  "dict_set k v d = AList.update k v d"

definition search_knowledge_data ::
  "string \<Rightarrow> int \<Rightarrow> real \<Rightarrow> string list option \<Rightarrow> string list option \<Rightarrow> pydict" where
  "search_knowledge_data query limit threshold types sources =
     (let d = [(''query'', PStr query), (''limit'', PInt limit), (''threshold'', PFloat threshold)];
          d = (if truthy_list types then dict_set ''types'' (PStrList (the types)) d else d);
          d = (if truthy_list sources then dict_set ''sources'' (PStrList (the sources)) d else d)
      in d)"

definition process_knowledge_data ::
  "string \<Rightarrow> string \<Rightarrow> string \<Rightarrow> string option \<Rightarrow> string option \<Rightarrow> bool \<Rightarrow> bool \<Rightarrow> string option
     \<Rightarrow> pydict" where
  \<comment> \<open>\<open>utcnow\<close> is \<^verbatim>\<open>datetime.utcnow().isoformat()\<close> at the time of the call\<close>
  "process_knowledge_data utcnow text source thread_id conversation_date include_concepts
       deduplicate batch_id =
     (let d = [(''text'', PStr text), (''source'', PStr source),
               (''include_concepts'', PBool include_concepts), (''deduplicate'', PBool deduplicate)];
          d = (if truthy_str thread_id then dict_set ''thread_id'' (PStr (the thread_id)) d else d);
          d = (if truthy_str conversation_date
               then dict_set ''conversation_date'' (PStr (the conversation_date)) d
               else dict_set ''conversation_date'' (PStr (utcnow @ ''Z'')) d);
          d = (if truthy_str batch_id then dict_set ''processing_batch_id'' (PStr (the batch_id)) d
               else d)
      in d)"

subsection \<open>The request function\<close>

definition latency :: "outcome \<Rightarrow> real" where
  "latency out = (case out of Raises t _ \<Rightarrow> t | Reply t _ \<Rightarrow> t)"

definition exchange :: "transport \<Rightarrow> request \<Rightarrow> client \<Rightarrow> outcome \<times> client" where
  \<comment> \<open>\<^verbatim>\<open>session.request(method, url, json=data)\<close> and \<^verbatim>\<open>response.json()\<close>\<close>
  "exchange tr req c =
     (let out = tr (length (sent c))
      in (out, c\<lparr>sent := sent c @ [req], now := now c + latency out\<rparr>))"

definition float_int_limit :: int where
  \<comment> \<open>the least positive \<^verbatim>\<open>int\<close> that does not convert to a \<^verbatim>\<open>float\<close>\<close>
  "float_int_limit = 2 ^ 1024 - 2 ^ 970"

definition sleep :: "int \<Rightarrow> client \<Rightarrow> exn + client" where
  \<comment> \<open>\<^verbatim>\<open>asyncio.sleep(delay)\<close> for an \<^verbatim>\<open>int\<close>: a delay that is not positive returns at
      once; otherwise the loop adds the delay to its clock, a \<^verbatim>\<open>float\<close>, which raises
      for an \<^verbatim>\<open>int\<close> that is too large\<close>
  "sleep delay c =
     (if delay \<le> 0 then Inr c
      else if float_int_limit \<le> delay
        then Inl (OverflowError ''int too large to convert to float'')
      else Inr (c\<lparr>now := now c + of_int delay\<rparr>))"

definition count_request :: "client \<Rightarrow> client" where
  "count_request c = c\<lparr>stats := (stats c)\<lparr>requests := requests (stats c) + 1\<rparr>\<rparr>"

definition count_retry :: "client \<Rightarrow> client" where
  "count_retry c = c\<lparr>stats := (stats c)\<lparr>retries := retries (stats c) + 1\<rparr>\<rparr>"

definition track_timing :: "real \<Rightarrow> client \<Rightarrow> client" where
  \<comment> \<open>lines 118-119: \<^verbatim>\<open>duration = time.time() - start_time; total_time += duration\<close>\<close>
  "track_timing start_time c =
     c\<lparr>stats := (stats c)\<lparr>total_time := total_time (stats c) + (now c - start_time)\<rparr>\<rparr>"

definition on_exception :: "real \<Rightarrow> client \<Rightarrow> client" where
  \<comment> \<open>the \<^verbatim>\<open>except Exception\<close> block, lines 147-152, before it re-raises\<close>
  "on_exception start_time c =
     c\<lparr>stats := (stats c)\<lparr>errors := errors (stats c) + 1,
                           total_time := total_time (stats c) + (now c - start_time)\<rparr>\<rparr>"

definition retry_after_seconds :: "response \<Rightarrow> exn + int" where
  \<comment> \<open>\<^verbatim>\<open>int(response.headers.get('Retry-After', 60))\<close>\<close>
  "retry_after_seconds resp =
     (case retry_after resp of None \<Rightarrow> Inr 60 | Some s \<Rightarrow> py_int s)"

definition error_message :: "envelope \<Rightarrow> string \<Rightarrow> string" where
  \<comment> \<open>\<^verbatim>\<open>response_data.get('error', {}).get('message', default)\<close>\<close>
  "error_message env dflt =
     (case error env of
        None \<Rightarrow> dflt
      | Some ed \<Rightarrow> (case message ed of None \<Rightarrow> dflt | Some m \<Rightarrow> m))"

definition stop_after_attempt :: "nat \<Rightarrow> nat \<Rightarrow> bool" where
  "stop_after_attempt max_attempt_number attempt_number = (max_attempt_number \<le> attempt_number)"

definition wait_exponential :: "int \<Rightarrow> int \<Rightarrow> int \<Rightarrow> nat \<Rightarrow> int" where
  \<comment> \<open>tenacity: \<^verbatim>\<open>max(max(0, min), min(multiplier * 2 ** (attempt_number - 1), max))\<close>\<close>
  "wait_exponential multiplier mn mx attempt_number =
     max (max 0 mn) (min (multiplier * 2 ^ (attempt_number - 1)) mx)"

definition retry_if_exception_type :: "exn \<Rightarrow> bool" where
  \<comment> \<open>\<^verbatim>\<open>isinstance(e, (aiohttp.ClientError, asyncio.TimeoutError))\<close>\<close>
  "retry_if_exception_type e =
     (case e of
        ClientConnectionError \<Rightarrow> True
      | TimeoutError \<Rightarrow> True
      | ClientResponseError _ _ \<Rightarrow> True
      | _ \<Rightarrow> False)"

text \<open>
  \<open>make_request_attempt tr n endpoint method data c\<close> is the decorated \<^verbatim>\<open>_make_request\<close>
  from its \<open>n\<close>-th attempt on: one run of the function body, then the decision of the
  \<^verbatim>\<open>@retry\<close> decorator. The name \<^verbatim>\<open>self._make_request\<close> inside the body is the
  decorated function, so the call after a 429 starts a new retry loop at attempt 1, and
  what it raises passes through the \<^verbatim>\<open>except\<close> block of the calling body.
\<close>

partial_function (option) make_request_attempt ::
  "transport \<Rightarrow> nat \<Rightarrow> string \<Rightarrow> string \<Rightarrow> pydict option \<Rightarrow> client
     \<Rightarrow> ((exn + payload) \<times> client) option" where
  "make_request_attempt tr attempt endpoint method json c0 =
     (let start_time = now c0;
          c1 = count_request c0;
          url = base_url c1 @ endpoint;
          (out, c2) = exchange tr \<lparr>req_method = method, req_url = url, req_json = json\<rparr> c1
      in do {
        (r, c') \<leftarrow>
          (case out of
             Raises _ e \<Rightarrow> Some (Inl e, on_exception start_time c2)
           | Reply _ resp \<Rightarrow>
               (let c3 = track_timing start_time c2
                in if status resp = 429 then
                     (case retry_after_seconds resp of
                        Inl e \<Rightarrow> Some (Inl e, on_exception start_time c3)
                      | Inr secs \<Rightarrow>
                          (case sleep secs c3 of
                             Inl e \<Rightarrow> Some (Inl e, on_exception start_time c3)
                           | Inr c4 \<Rightarrow> do {
                               (r, c5) \<leftarrow> make_request_attempt tr 1 endpoint method json
                                            (count_retry c4);
                               (case r of
                                  Inl e \<Rightarrow> Some (Inl e, on_exception start_time c5)
                                | Inr v \<Rightarrow> Some (Inr v, c5))
                             }))
                   else if status resp \<ge> 400 then
                     Some (Inl (ClientResponseError (status resp)
                                  (error_message (body resp) (''HTTP '' @ str_int (status resp)))),
                           on_exception start_time c3)
                   else if \<not> (case success (body resp) of None \<Rightarrow> True | Some b \<Rightarrow> b) then
                     Some (Inl (RuntimeError
                                  (''API Error: '' @ error_message (body resp) ''Unknown API error'')),
                           on_exception start_time c3)
                   else
                     Some (Inr (case data (body resp) of
                                  None \<Rightarrow> Whole (body resp)
                                | Some d \<Rightarrow> Data d),
                           c3)));
        (case r of
           Inr v \<Rightarrow> Some (Inr v, c')
         | Inl e \<Rightarrow>
             if retry_if_exception_type e then
               (if stop_after_attempt 3 attempt then Some (Inl (RetryError e), c')
                else (case sleep (wait_exponential 1 1 10 attempt) c' of
                        Inl e' \<Rightarrow> Some (Inl e', c')
                      | Inr c'' \<Rightarrow>
                          make_request_attempt tr (attempt + 1) endpoint method json c''))
             else Some (Inl e, c'))
      })"

declare make_request_attempt.simps [code]

definition make_request ::
  "transport \<Rightarrow> string \<Rightarrow> string \<Rightarrow> pydict option \<Rightarrow> client
     \<Rightarrow> ((exn + payload) \<times> client) option" where
  "make_request tr endpoint method json c = make_request_attempt tr 1 endpoint method json c"

definition search_knowledge ::
  "transport \<Rightarrow> string \<Rightarrow> int \<Rightarrow> real \<Rightarrow> string list option \<Rightarrow> string list option \<Rightarrow> client
     \<Rightarrow> ((exn + payload) \<times> client) option" where
  "search_knowledge tr query limit threshold types sources c =
     make_request tr ''/search-knowledge'' ''POST''
       (Some (search_knowledge_data query limit threshold types sources)) c"

definition process_knowledge ::
  "transport \<Rightarrow> string \<Rightarrow> string \<Rightarrow> string \<Rightarrow> string option \<Rightarrow> string option \<Rightarrow> bool \<Rightarrow> bool
     \<Rightarrow> string option \<Rightarrow> client \<Rightarrow> ((exn + payload) \<times> client) option" where
  "process_knowledge tr utcnow text source thread_id conversation_date include_concepts
       deduplicate batch_id c =
     make_request tr ''/process-knowledge'' ''POST''
       (Some (process_knowledge_data utcnow text source thread_id conversation_date
                include_concepts deduplicate batch_id)) c"

definition get_performance_stats :: "client \<Rightarrow> exn + performance_stats" where
  \<comment> \<open>on exact reals: where the float computation rounds, the last digit of a rounded
      value can differ from the one the code prints\<close>
  "get_performance_stats c =
     (case average_response_time (stats c) of
        Inl e \<Rightarrow> Inl e
      | Inr avg \<Rightarrow>
          (case error_rate (stats c) of
             Inl e \<Rightarrow> Inl e
           | Inr rate \<Rightarrow>
               Inr \<lparr>ps_total_requests = requests (stats c),
                    ps_total_errors = errors (stats c),
                    ps_total_retries = retries (stats c),
                    ps_average_response_time = py_round (avg * 1000) 1,
                    ps_error_rate = py_round rate 2,
                    ps_total_time = py_round (total_time (stats c)) 2\<rparr>))"

definition reset_stats :: "client \<Rightarrow> client" where
  "reset_stats c = c\<lparr>stats := ClientStats\<rparr>"

subsection \<open>Batch processing\<close>

text \<open>
  The per-item operation \<^verbatim>\<open>processor(item, index)\<close> is modelled by its completion: it
  returns a value or raises an \<^verbatim>\<open>Exception\<close> whose \<^verbatim>\<open>str\<close> is given. It runs in
  one step of the event loop once its task holds a permit of the semaphore.
\<close>

datatype 'r completion = Returned 'r | Raised string

datatype 'r item_dict =
    ItemSuccess nat 'r       \<comment> \<open>\<^verbatim>\<open>{'success': True, 'index': index, 'result': result}\<close>\<close>
  | ItemFailure nat string   \<comment> \<open>\<^verbatim>\<open>{'success': False, 'index': index, 'error': str(e)}\<close>\<close>

datatype 'r gathered =
    ExceptionObject string   \<comment> \<open>an exception returned by \<^verbatim>\<open>gather(..., return_exceptions=True)\<close>\<close>
  | Dict "'r item_dict"

datatype 'r error_dict =
    ErrorOnly string         \<comment> \<open>\<^verbatim>\<open>{'error': str(result)}\<close>\<close>
  | FailedItem "'r item_dict"

record 'r batch_result =
  br_results :: "'r item_dict list"
  br_errors :: "'r error_dict list"

fun item_success :: "'r item_dict \<Rightarrow> bool" where
  "item_success (ItemSuccess _ _) = True"
| "item_success (ItemFailure _ _) = False"

fun item_index :: "'r item_dict \<Rightarrow> nat" where
  "item_index (ItemSuccess i _) = i"
| "item_index (ItemFailure i _) = i"

fun error_index :: "'r error_dict \<Rightarrow> nat option" where
  "error_index (ErrorOnly _) = None"
| "error_index (FailedItem d) = Some (item_index d)"

definition Semaphore :: "int \<Rightarrow> exn + nat" where
  \<comment> \<open>\<^verbatim>\<open>asyncio.Semaphore(value)\<close>: the constructor refuses a negative value\<close>
  "Semaphore v =
     (if v < 0 then Inl (ValueError ''Semaphore initial value must be >= 0'') else Inr (nat v))"

definition process_item :: "('a \<Rightarrow> nat \<Rightarrow> 'r completion) \<Rightarrow> 'a \<Rightarrow> nat \<Rightarrow> 'r item_dict" where
  "process_item processor item index =
     (case processor item index of
        Returned r \<Rightarrow> ItemSuccess index r
      | Raised e \<Rightarrow> ItemFailure index e)"

record ('a, 'r) sched =
  sem :: nat                              \<comment> \<open>the value of the semaphore\<close>
  waiting :: "(nat \<times> 'a) list"            \<comment> \<open>tasks that have not entered \<^verbatim>\<open>async with semaphore\<close>\<close>
  running :: "(nat \<times> 'a) list"            \<comment> \<open>tasks holding a permit\<close>
  slots :: "'r gathered option list"      \<comment> \<open>the results of \<^verbatim>\<open>gather\<close>, by task position\<close>
  invoked :: "nat list"                   \<comment> \<open>the indices \<^verbatim>\<open>processor\<close> was called with\<close>

definition start :: "nat \<Rightarrow> 'a list \<Rightarrow> ('a, 'r) sched" where
  \<comment> \<open>\<^verbatim>\<open>tasks = [process_item(item, i) for i, item in enumerate(items)]\<close>\<close>
  "start v items =
     \<lparr>sem = v, waiting = enumerate 0 items, running = [],
      slots = replicate (length items) None, invoked = []\<rparr>"

definition finish_one :: "('a \<Rightarrow> nat \<Rightarrow> 'r completion) \<Rightarrow> ('a, 'r) sched \<Rightarrow> ('a, 'r) sched" where
  \<comment> \<open>the oldest running task calls its processor, stores its dict and releases its permit\<close>
  "finish_one processor s =
     (case running s of
        [] \<Rightarrow> s
      | (i, item) # rs \<Rightarrow>
          s\<lparr>sem := sem s + 1, running := rs,
            slots := (slots s)[i := Some (Dict (process_item processor item i))],
            invoked := invoked s @ [i]\<rparr>)"

definition step :: "('a \<Rightarrow> nat \<Rightarrow> 'r completion) \<Rightarrow> ('a, 'r) sched \<Rightarrow> ('a, 'r) sched" where
  \<comment> \<open>a waiting task acquires a permit while one is free; otherwise a running task finishes;
      with no permit and nothing running the state does not change\<close>
  "step processor s =
     (case waiting s of
        [] \<Rightarrow> finish_one processor s
      | t # ts \<Rightarrow>
          if 0 < sem s then s\<lparr>sem := sem s - 1, waiting := ts, running := running s @ [t]\<rparr>
          else finish_one processor s)"

definition gather_done :: "('a, 'r) sched \<Rightarrow> bool" where
  "gather_done s = list_all (\<lambda>x. x \<noteq> None) (slots s)"

partial_function (option) event_loop ::
  "('a \<Rightarrow> nat \<Rightarrow> 'r completion) \<Rightarrow> ('a, 'r) sched \<Rightarrow> ('a, 'r) sched option" where
  "event_loop processor s =
     (if gather_done s then Some s else event_loop processor (step processor s))"

declare event_loop.simps [code]

definition gather_results :: "('a, 'r) sched \<Rightarrow> 'r gathered list" where
  "gather_results s = concat (map (\<lambda>x. case x of None \<Rightarrow> [] | Some g \<Rightarrow> [g]) (slots s))"

fun categorize :: "'r gathered list \<Rightarrow> 'r batch_result \<Rightarrow> 'r batch_result" where
  "categorize [] acc = acc"
| "categorize (g # gs) acc =
     categorize gs
       (case g of
          ExceptionObject e \<Rightarrow> acc\<lparr>br_errors := br_errors acc @ [ErrorOnly e]\<rparr>
        | Dict d \<Rightarrow>
            if item_success d then acc\<lparr>br_results := br_results acc @ [d]\<rparr>
            else acc\<lparr>br_errors := br_errors acc @ [FailedItem d]\<rparr>)"

definition process_batch ::
  "'a list \<Rightarrow> ('a \<Rightarrow> nat \<Rightarrow> 'r completion) \<Rightarrow> int \<Rightarrow> (exn + 'r batch_result) option" where
  "process_batch items processor concurrency =
     (case Semaphore concurrency of
        Inl e \<Rightarrow> Some (Inl e)
      | Inr v \<Rightarrow>
          (case event_loop processor (start v items) of
             None \<Rightarrow> None
           | Some s \<Rightarrow>
               Some (Inr (categorize (gather_results s) \<lparr>br_results = [], br_errors = []\<rparr>))))"

subsection \<open>Derived notions and example inputs\<close>

definition begin_attempt :: "transport \<Rightarrow> string \<Rightarrow> string \<Rightarrow> pydict option \<Rightarrow> client \<Rightarrow> client" where
  \<comment> \<open>the client after \<^verbatim>\<open>requests += 1\<close> and the exchange of one run of the body\<close>
  "begin_attempt tr endpoint method json c =
     snd (exchange tr \<lparr>req_method = method, req_url = base_url c @ endpoint, req_json = json\<rparr>
            (count_request c))"

definition retry_decision ::
  "transport \<Rightarrow> nat \<Rightarrow> string \<Rightarrow> string \<Rightarrow> pydict option \<Rightarrow> exn \<Rightarrow> client
     \<Rightarrow> ((exn + payload) \<times> client) option" where
  \<comment> \<open>what the decorator does with an exception \<open>e\<close> that left the body at attempt \<open>attempt\<close>\<close>
  "retry_decision tr attempt endpoint method json e c' =
     (if retry_if_exception_type e then
        (if stop_after_attempt 3 attempt then Some (Inl (RetryError e), c')
         else (case sleep (wait_exponential 1 1 10 attempt) c' of
                 Inl e' \<Rightarrow> Some (Inl e', c')
               | Inr c'' \<Rightarrow> make_request_attempt tr (attempt + 1) endpoint method json c''))
      else Some (Inl e, c'))"

definition slept :: "int \<Rightarrow> client \<Rightarrow> client" where
  \<comment> \<open>the client after a sleep that returned\<close>
  "slept delay c = c\<lparr>now := now c + of_int (max 0 delay)\<rparr>"



definition example_client :: client where
  "example_client =
     \<lparr>base_url = ''http://localhost:3000/api'', max_retries = 3, retry_delay = 1,
      stats = ClientStats, now = 0, sent = []\<rparr>"

definition ok_envelope :: envelope where
  "ok_envelope = \<lparr>success = Some True, error = None, data = Some ''pong''\<rparr>"

definition ok_response :: response where
  "ok_response = \<lparr>status = 200, retry_after = None, body = ok_envelope\<rparr>"



definition bare_500 :: response where
  "bare_500 = \<lparr>status = 500, retry_after = None,
               body = \<lparr>success = None, error = None, data = None\<rparr>\<rparr>"

definition always_500 :: transport where
  "always_500 n = Reply 1 bare_500"

definition api_error_response :: response where
  "api_error_response =
     \<lparr>status = 200, retry_after = None,
      body = \<lparr>success = Some False,
              error = Some \<lparr>message = Some ''limit must be positive'', code = None\<rparr>,
              data = None\<rparr>\<rparr>"

definition api_error :: transport where
  "api_error n = Reply 3 api_error_response"

definition http_date_response :: response where
  "http_date_response =
     \<lparr>status = 429, retry_after = Some ''Wed, 21 Oct 2015 07:28:00 GMT'', body = ok_envelope\<rparr>"

definition http_date_retry_after :: transport where
  \<comment> \<open>429 with \<^verbatim>\<open>Retry-After\<close> as an HTTP date, then success\<close>
  "http_date_retry_after n = (if n = 0 then Reply 1 http_date_response else Reply 1 ok_response)"

text \<open>
  The invariant of the event loop for a batch over \<open>items\<close> started with \<open>v\<close> permits:
  the tasks that have not finished are distinct tasks of the batch, the slot of a task
  is empty until it finishes and holds the dict of its item afterwards, the permits
  taken are those of the running tasks, and the operation was invoked for exactly the
  finished tasks.
\<close>

definition pending :: "('a, 'r) sched \<Rightarrow> nat set" where
  \<comment> \<open>the indices of the tasks that have not finished\<close>
  "pending s = fst ` set (waiting s @ running s)"

definition sched_inv ::
  "'a list \<Rightarrow> ('a \<Rightarrow> nat \<Rightarrow> 'r completion) \<Rightarrow> nat \<Rightarrow> ('a, 'r) sched \<Rightarrow> bool" where
  "sched_inv items processor v s =
     (length (slots s) = length items
      \<and> distinct (map fst (waiting s @ running s))
      \<and> (\<forall>(i, x) \<in> set (waiting s @ running s). i < length items \<and> x = items ! i)
      \<and> (\<forall>i<length items.
            slots s ! i =
              (if i \<in> pending s then None
               else Some (Dict (process_item processor (items ! i) i))))
      \<and> sem s + length (running s) = v
      \<and> distinct (invoked s)
      \<and> set (invoked s) = {i. i < length items \<and> i \<notin> pending s})"

definition work_left :: "('a, 'r) sched \<Rightarrow> nat" where
  \<comment> \<open>the steps the event loop still has to make: two for a waiting task, one for a
      running one\<close>
  "work_left s = 2 * length (waiting s) + length (running s)"

definition item_dicts :: "'a list \<Rightarrow> ('a \<Rightarrow> nat \<Rightarrow> 'r completion) \<Rightarrow> 'r item_dict list" where
  \<comment> \<open>what \<^verbatim>\<open>process_item\<close> returns for each item, in the order of the items\<close>
  "item_dicts items processor =
     map (\<lambda>i. process_item processor (items ! i) i) [0..<length items]"

definition flaky :: "string \<Rightarrow> nat \<Rightarrow> string completion" where
  \<comment> \<open>an operation that raises for the item at index 1 and returns for the others\<close>
  "flaky item index = (if index = 1 then Raised ''boom'' else Returned (item @ item))"

definition tally :: "client \<Rightarrow> nat \<times> int \<times> int" where
  \<comment> \<open>what the counters of a call are measured against: exchanges made, \<open>requests\<close>, \<open>retries\<close>\<close>
  "tally c = (length (sent c), requests (stats c), retries (stats c))"


definition huge_retry_after :: transport where
  \<comment> \<open>429 with \<^verbatim>\<open>Retry-After\<close> equal to 1 followed by 400 zeros, then success\<close>
  "huge_retry_after n =
     (if n = 0
      then Reply 1 \<lparr>status = 429, retry_after = Some (CHR ''1'' # replicate 400 (CHR ''0'')),
                    body = ok_envelope\<rparr>
      else Reply 1 ok_response)"

section \<open>Properties\<close>

subsection \<open>Statistics\<close>

lemma round_half_even_zero: "round_half_even 0 = 0"
  by (simp add: round_half_even_def)

lemma py_round_zero: "py_round 0 n = 0"
  by (simp add: py_round_def round_half_even_zero)

text \<open>
  C9: after \<^verbatim>\<open>reset_stats()\<close> the four counters are 0 and the snapshot returned by
  \<^verbatim>\<open>get_performance_stats()\<close> shows 0 everywhere. The two derived values never raise
  \<^verbatim>\<open>ZeroDivisionError\<close>: they divide only when \<open>requests > 0\<close> and are 0 otherwise, in
  particular when \<open>requests = 0\<close>.
\<close>

theorem reset_stats_zero_and_no_division_error:
  "stats (reset_stats c) = \<lparr>requests = 0, errors = 0, total_time = 0, retries = 0\<rparr>
   \<and> get_performance_stats (reset_stats c) =
       Inr \<lparr>ps_total_requests = 0, ps_total_errors = 0, ps_total_retries = 0,
            ps_average_response_time = 0, ps_error_rate = 0, ps_total_time = 0\<rparr>
   \<and> (requests s = 0 \<longrightarrow> average_response_time s = Inr 0 \<and> error_rate s = Inr 0)
   \<and> average_response_time s =
       Inr (if requests s > 0 then total_time s / of_int (requests s) else 0)
   \<and> error_rate s =
       Inr (if requests s > 0 then of_int (errors s) / of_int (requests s) * 100 else 0)
   \<and> average_response_time s \<noteq> Inl ZeroDivisionError
   \<and> error_rate s \<noteq> Inl ZeroDivisionError"
  by (simp add: reset_stats_def ClientStats_def get_performance_stats_def
      average_response_time_def error_rate_def truediv_def py_round_zero)

theorem reset_stats_zero_and_no_division_error_witness:
  "requests ClientStats = 0
   \<and> average_response_time ClientStats = Inr 0 \<and> error_rate ClientStats = Inr 0"
  using reset_stats_zero_and_no_division_error [of undefined ClientStats]
  by (simp add: ClientStats_def)

subsection \<open>Payloads\<close>

text \<open>
  C10: \<^verbatim>\<open>search_knowledge\<close> builds the same payload, and so makes the same request, for
  an empty list as for \<^verbatim>\<open>None\<close> in \<open>types\<close> or in \<open>sources\<close>; the keys \<open>types\<close> and
  \<open>sources\<close> are in the payload exactly when the argument is a non-empty list, and then
  carry it. \<^verbatim>\<open>process_knowledge\<close> does the same with an empty string for \<open>thread_id\<close>.
\<close>

theorem empty_optional_argument_as_omitted:
  "search_knowledge_data q l t (Some []) srcs = search_knowledge_data q l t None srcs
   \<and> search_knowledge_data q l t tys (Some []) = search_knowledge_data q l t tys None
   \<and> search_knowledge tr q l t (Some []) srcs c = search_knowledge tr q l t None srcs c
   \<and> search_knowledge tr q l t tys (Some []) c = search_knowledge tr q l t tys None c
   \<and> map_of (search_knowledge_data q l t tys srcs) ''types'' =
       (case tys of None \<Rightarrow> None | Some xs \<Rightarrow> if xs = [] then None else Some (PStrList xs))
   \<and> map_of (search_knowledge_data q l t tys srcs) ''sources'' =
       (case srcs of None \<Rightarrow> None | Some xs \<Rightarrow> if xs = [] then None else Some (PStrList xs))
   \<and> process_knowledge_data u text src (Some []) cd ic dd bid =
       process_knowledge_data u text src None cd ic dd bid
   \<and> process_knowledge tr u text src (Some []) cd ic dd bid c =
       process_knowledge tr u text src None cd ic dd bid c
   \<and> map_of (process_knowledge_data u text src tid cd ic dd bid) ''thread_id'' =
       (case tid of None \<Rightarrow> None | Some x \<Rightarrow> if x = [] then None else Some (PStr x))"
  by (simp add: search_knowledge_def search_knowledge_data_def process_knowledge_def
      process_knowledge_data_def truthy_list_def truthy_str_def dict_set_def Let_def
      update_conv' split: option.splits)

subsection \<open>One run of the request body\<close>

lemma stats_begin_attempt [simp]:
  "stats (begin_attempt tr ep m j c) = (stats c)\<lparr>requests := requests (stats c) + 1\<rparr>"
  by (simp add: begin_attempt_def exchange_def count_request_def Let_def)

lemma sent_begin_attempt [simp]:
  "sent (begin_attempt tr ep m j c) =
     sent c @ [\<lparr>req_method = m, req_url = base_url c @ ep, req_json = j\<rparr>]"
  by (simp add: begin_attempt_def exchange_def count_request_def Let_def)

lemma now_begin_attempt [simp]:
  "now (begin_attempt tr ep m j c) = now c + latency (tr (length (sent c)))"
  by (simp add: begin_attempt_def exchange_def count_request_def Let_def)

lemma base_url_begin_attempt [simp]: "base_url (begin_attempt tr ep m j c) = base_url c"
  by (simp add: begin_attempt_def exchange_def count_request_def Let_def)

lemma stats_on_exception [simp]:
  "stats (on_exception st c) =
     (stats c)\<lparr>errors := errors (stats c) + 1,
               total_time := total_time (stats c) + (now c - st)\<rparr>"
  by (simp add: on_exception_def)

lemma sent_on_exception [simp]: "sent (on_exception st c) = sent c"
  by (simp add: on_exception_def)

lemma now_on_exception [simp]: "now (on_exception st c) = now c"
  by (simp add: on_exception_def)

lemma base_url_on_exception [simp]: "base_url (on_exception st c) = base_url c"
  by (simp add: on_exception_def)

lemma stats_track_timing [simp]:
  "stats (track_timing st c) = (stats c)\<lparr>total_time := total_time (stats c) + (now c - st)\<rparr>"
  by (simp add: track_timing_def)

lemma sent_track_timing [simp]: "sent (track_timing st c) = sent c"
  by (simp add: track_timing_def)

lemma now_track_timing [simp]: "now (track_timing st c) = now c"
  by (simp add: track_timing_def)

lemma base_url_track_timing [simp]: "base_url (track_timing st c) = base_url c"
  by (simp add: track_timing_def)

lemma stats_slept [simp]: "stats (slept d c) = stats c"
  by (simp add: slept_def)

lemma sent_slept [simp]: "sent (slept d c) = sent c"
  by (simp add: slept_def)

lemma now_slept [simp]: "now (slept d c) = now c + of_int (max 0 d)"
  by (simp add: slept_def)

lemma base_url_slept [simp]: "base_url (slept d c) = base_url c"
  by (simp add: slept_def)

lemma float_int_limit_large: "10 < float_int_limit"
  by (simp add: float_int_limit_def)

lemma sleep_returns: "d < float_int_limit \<Longrightarrow> sleep d c = Inr (slept d c)"
  by (auto simp: sleep_def slept_def max_def)

lemma sleep_wait_exponential [simp]:
  "sleep (wait_exponential 1 1 10 a) c = Inr (slept (wait_exponential 1 1 10 a) c)"
proof -
  have "wait_exponential 1 1 10 a \<le> 10"
    by (simp add: wait_exponential_def)
  with float_int_limit_large show ?thesis
    by (intro sleep_returns) simp
qed

lemma stats_count_retry [simp]:
  "stats (count_retry c) = (stats c)\<lparr>retries := retries (stats c) + 1\<rparr>"
  by (simp add: count_retry_def)

lemma sent_count_retry [simp]: "sent (count_retry c) = sent c"
  by (simp add: count_retry_def)

lemma now_count_retry [simp]: "now (count_retry c) = now c"
  by (simp add: count_retry_def)

lemma base_url_count_retry [simp]: "base_url (count_retry c) = base_url c"
  by (simp add: count_retry_def)


text \<open>A status of 400 or more that is not 429: \<^verbatim>\<open>ClientResponseError\<close> is raised after
  the timing was tracked, so the \<^verbatim>\<open>except\<close> block tracks it again.\<close>

lemma attempt_http_error:
  assumes "tr (length (sent c)) = Reply t r" "status r \<noteq> 429" "400 \<le> status r"
  shows "make_request_attempt tr a ep m j c =
           retry_decision tr a ep m j
             (ClientResponseError (status r)
                (error_message (body r) (''HTTP '' @ str_int (status r))))
             (on_exception (now c) (track_timing (now c) (begin_attempt tr ep m j c)))"
  by (subst make_request_attempt.simps)
     (simp add: assms exchange_def count_request_def begin_attempt_def retry_decision_def Let_def)

lemma attempt_api_error:
  assumes "tr (length (sent c)) = Reply t r" "status r < 400" "success (body r) = Some False"
  shows "make_request_attempt tr a ep m j c =
           Some (Inl (RuntimeError
                        (''API Error: '' @ error_message (body r) ''Unknown API error'')),
                 on_exception (now c) (track_timing (now c) (begin_attempt tr ep m j c)))"
  using assms
  by (subst make_request_attempt.simps)
     (simp add: exchange_def count_request_def begin_attempt_def retry_if_exception_type_def
        Let_def)


lemma py_int_error: "py_int s = Inl e \<Longrightarrow> \<exists>msg. e = ValueError msg"
  by (auto simp: py_int_def invalid_literal_def too_many_digits_def Let_def
      split: list.splits if_splits option.splits prod.splits)

lemma retry_after_seconds_error:
  "retry_after_seconds r = Inl e \<Longrightarrow> \<not> retry_if_exception_type e"
  by (auto simp: retry_after_seconds_def retry_if_exception_type_def
      split: option.splits dest: py_int_error)

lemma attempt_rate_limited_bad_header:
  assumes "tr (length (sent c)) = Reply t r" "status r = 429" "retry_after_seconds r = Inl e"
  shows "make_request_attempt tr a ep m j c =
           Some (Inl e, on_exception (now c) (track_timing (now c) (begin_attempt tr ep m j c)))"
  using assms retry_after_seconds_error [OF assms(3)]
  by (subst make_request_attempt.simps)
     (simp add: exchange_def count_request_def begin_attempt_def Let_def)

lemma attempt_rate_limited_overflow:
  assumes "tr (length (sent c)) = Reply t r" "status r = 429" "retry_after_seconds r = Inr secs"
    and "float_int_limit \<le> secs"
  shows "make_request_attempt tr a ep m j c =
           Some (Inl (OverflowError ''int too large to convert to float''),
                 on_exception (now c) (track_timing (now c) (begin_attempt tr ep m j c)))"
proof -
  have "0 < secs"
    using assms(4) float_int_limit_large by simp
  then show ?thesis
    using assms
    by (subst make_request_attempt.simps)
       (simp add: exchange_def count_request_def begin_attempt_def Let_def sleep_def
          retry_if_exception_type_def)
qed



lemma py_int_http_date:
  "py_int ''Wed, 21 Oct 2015 07:28:00 GMT'' =
     Inl (ValueError (''invalid literal for int() with base 10: ''
            @ [CHR 0x27] @ ''Wed, 21 Oct 2015 07:28:00 GMT'' @ [CHR 0x27]))"
  by (simp add: py_int_def is_space_def digit_val_def invalid_literal_def py_repr_def
      repr_char_def Let_def)

lemma str_int_500: "str_int 500 = ''500''"
  by code_simp

lemma wait_exponential_1: "wait_exponential 1 1 10 1 = 1"
  by (simp add: wait_exponential_def)

lemma wait_exponential_2: "wait_exponential 1 1 10 2 = 2"
  by (simp add: wait_exponential_def)


text \<open>Three attempts that all receive an HTTP error other than 429: the same.\<close>

lemma three_http_errors:
  assumes "tr (length (sent c)) = Reply t0 r0" "status r0 \<noteq> 429" "400 \<le> status r0"
    and "tr (length (sent c) + 1) = Reply t1 r1" "status r1 \<noteq> 429" "400 \<le> status r1"
    and "tr (length (sent c) + 2) = Reply t2 r2" "status r2 \<noteq> 429" "400 \<le> status r2"
  shows "make_request tr ep m j c =
           (let c1 = slept (wait_exponential 1 1 10 1)
                       (on_exception (now c) (track_timing (now c) (begin_attempt tr ep m j c)));
                c2 = slept (wait_exponential 1 1 10 2)
                       (on_exception (now c1)
                          (track_timing (now c1) (begin_attempt tr ep m j c1)))
            in Some (Inl (RetryError (ClientResponseError (status r2)
                            (error_message (body r2) (''HTTP '' @ str_int (status r2))))),
                     on_exception (now c2) (track_timing (now c2) (begin_attempt tr ep m j c2))))"
proof -
  define c1 where "c1 = slept (wait_exponential 1 1 10 1)
    (on_exception (now c) (track_timing (now c) (begin_attempt tr ep m j c)))"
  define c2 where "c2 = slept (wait_exponential 1 1 10 2)
    (on_exception (now c1) (track_timing (now c1) (begin_attempt tr ep m j c1)))"
  define c3 where
    "c3 = on_exception (now c2) (track_timing (now c2) (begin_attempt tr ep m j c2))"
  define x where "x = ClientResponseError (status r2)
    (error_message (body r2) (''HTTP '' @ str_int (status r2)))"
  have o1: "tr (length (sent c1)) = Reply t1 r1"
    using assms(4) by (simp add: c1_def)
  have o2: "tr (length (sent c2)) = Reply t2 r2"
    using assms(7) by (simp add: c2_def c1_def)
  have r: "retry_if_exception_type (ClientResponseError s msg)" for s msg
    by (simp add: retry_if_exception_type_def)
  have a3: "make_request_attempt tr 3 ep m j c2 = Some (Inl (RetryError x), c3)"
    by (simp add: attempt_http_error [where tr = tr and c = c2, OF o2 assms(8,9)]
        retry_decision_def r stop_after_attempt_def c3_def x_def)
  have a2: "make_request_attempt tr 2 ep m j c1 = Some (Inl (RetryError x), c3)"
    using a3
    by (simp add: attempt_http_error [where tr = tr and c = c1, OF o1 assms(5,6)]
        retry_decision_def r stop_after_attempt_def c2_def)
  have "make_request tr ep m j c = Some (Inl (RetryError x), c3)"
    using a2
    by (simp add: make_request_def
        attempt_http_error [where tr = tr and c = c, OF assms(1,2,3)]
        retry_decision_def r stop_after_attempt_def c1_def numeral_2_eq_2)
  then show ?thesis
    unfolding x_def by (simp add: Let_def c3_def c2_def c1_def)
qed

subsection \<open>Counting requests and retries\<close>


lemma tally_simps [simp]:
  "tally (on_exception st c) = tally c"
  "tally (track_timing st c) = tally c"
  "tally (slept d c) = tally c"
  "tally (begin_attempt tr ep m j c) =
     (Suc (length (sent c)), requests (stats c) + 1, retries (stats c))"
  "tally (count_retry c) = (length (sent c), requests (stats c), retries (stats c) + 1)"
  by (simp_all add: tally_def)








text \<open>
  A wait that \<^verbatim>\<open>asyncio.sleep\<close> cannot convert to a \<^verbatim>\<open>float\<close> is not resubmitted: the
  call raises \<^verbatim>\<open>OverflowError\<close> after one exchange.
\<close>

lemma py_int_huge: "py_int (CHR ''1'' # replicate 400 (CHR ''0'')) = Inr (10 ^ 400)"
  by code_simp

lemma huge_retry_after_overflows:
  "make_request huge_retry_after ''/health'' ''GET'' None example_client =
     Some (Inl (OverflowError ''int too large to convert to float''),
       \<lparr>base_url = ''http://localhost:3000/api'', max_retries = 3, retry_delay = 1,
        stats = \<lparr>requests = 1, errors = 1, total_time = 2, retries = 0\<rparr>, now = 1,
        sent = [\<lparr>req_method = ''GET'', req_url = ''http://localhost:3000/api/health'',
                 req_json = None\<rparr>]\<rparr>)"
proof -
  have o: "huge_retry_after (length (sent example_client)) =
      Reply 1 \<lparr>status = 429, retry_after = Some (CHR ''1'' # replicate 400 (CHR ''0'')),
                    body = ok_envelope\<rparr>"
    by (simp add: huge_retry_after_def example_client_def)
  have big: "float_int_limit \<le> 10 ^ 400"
    by (simp add: float_int_limit_def)
  show ?thesis
    unfolding make_request_def
    by (subst attempt_rate_limited_overflow [where tr = huge_retry_after
          and c = example_client and secs = "10 ^ 400", OF o _ _ big])
       (simp_all add: retry_after_seconds_def py_int_huge example_client_def ClientStats_def
          begin_attempt_def exchange_def count_request_def on_exception_def track_timing_def
          latency_def huge_retry_after_def Let_def)
qed



subsection \<open>Transport failures\<close>




subsection \<open>HTTP errors\<close>

text \<open>
  C3, as the spec states it: a response with status 400 or more, other than 429, is
  surfaced without any retry. It fails: against a server that always answers 500 the
  call sends three requests and surfaces \<^verbatim>\<open>RetryError\<close>, because the exception the
  body raises, \<^verbatim>\<open>aiohttp.ClientResponseError\<close>, is an \<^verbatim>\<open>aiohttp.ClientError\<close>, which
  the decorator retries.
\<close>

theorem http_error_not_retried_counterexample:
  "make_request always_500 ''/health'' ''GET'' None example_client =
     Some (Inl (RetryError (ClientResponseError 500 ''HTTP 500'')),
       \<lparr>base_url = ''http://localhost:3000/api'', max_retries = 3, retry_delay = 1,
        stats = \<lparr>requests = 3, errors = 3, total_time = 6, retries = 0\<rparr>, now = 6,
        sent = [\<lparr>req_method = ''GET'', req_url = ''http://localhost:3000/api/health'',
                 req_json = None\<rparr>,
                \<lparr>req_method = ''GET'', req_url = ''http://localhost:3000/api/health'',
                 req_json = None\<rparr>,
                \<lparr>req_method = ''GET'', req_url = ''http://localhost:3000/api/health'',
                 req_json = None\<rparr>]\<rparr>)"
proof -
  have o: "always_500 n = Reply 1 bare_500" for n
    by (simp add: always_500_def)
  have s: "status bare_500 \<noteq> 429" "400 \<le> status bare_500"
    by (simp_all add: bare_500_def)
  show ?thesis
    by (simp add: three_http_errors [where tr = always_500 and c = example_client,
          OF o s o s o s] Let_def wait_exponential_1 wait_exponential_2)
       (simp add: example_client_def ClientStats_def begin_attempt_def exchange_def
          count_request_def on_exception_def track_timing_def slept_def latency_def
          always_500_def bare_500_def error_message_def str_int_500 wait_exponential_def
          Let_def)
qed

text \<open>
  C3, amended: for a response with status 400 or more, other than 429, the body raises
  \<^verbatim>\<open>ClientResponseError\<close> with that status and with the message of the error envelope
  when there is one, else \<open>HTTP\<close> followed by the status. The decorator retries this
  exception like a network failure: when each of the next three exchanges gets such a
  response, the call makes 3 attempts and surfaces \<^verbatim>\<open>RetryError\<close> around the error of
  the last response, with \<open>requests\<close> and \<open>errors\<close> incremented by 3.
\<close>

theorem http_error_is_retried:
  assumes "\<forall>i<3. \<exists>t r. tr (length (sent c) + i) = Reply t r \<and> 400 \<le> status r \<and> status r \<noteq> 429"
    and "tr (length (sent c) + 2) = Reply t2 r2"
  shows "\<exists>c'. make_request tr ep m j c =
               Some (Inl (RetryError (ClientResponseError (status r2)
                       (case error (body r2) of
                          None \<Rightarrow> ''HTTP '' @ str_int (status r2)
                        | Some ed \<Rightarrow>
                            (case message ed of
                               None \<Rightarrow> ''HTTP '' @ str_int (status r2)
                             | Some msg \<Rightarrow> msg)))), c')
           \<and> length (sent c') = length (sent c) + 3
           \<and> requests (stats c') = requests (stats c) + 3
           \<and> errors (stats c') = errors (stats c) + 3
           \<and> retries (stats c') = retries (stats c)"
proof -
  from assms(1) [rule_format, of 0] obtain t0 r0
    where o0: "tr (length (sent c)) = Reply t0 r0" "status r0 \<noteq> 429" "400 \<le> status r0"
    by auto
  from assms(1) [rule_format, of 1] obtain t1 r1
    where o1: "tr (length (sent c) + 1) = Reply t1 r1" "status r1 \<noteq> 429" "400 \<le> status r1"
    by auto
  from assms(1) [rule_format, of 2] assms(2)
  have o2: "tr (length (sent c) + 2) = Reply t2 r2" "status r2 \<noteq> 429" "400 \<le> status r2"
    by auto
  show ?thesis
    unfolding three_http_errors [where tr = tr and c = c, OF o0 o1 o2] error_message_def
    by (simp add: Let_def)
qed

theorem http_error_is_retried_witness:
  "always_500 (length (sent example_client)) = Reply 1 bare_500
   \<and> always_500 (length (sent example_client) + 1) = Reply 1 bare_500
   \<and> always_500 (length (sent example_client) + 2) = Reply 1 bare_500
   \<and> status bare_500 = 500
   \<and> (\<exists>c'. make_request always_500 ''/health'' ''GET'' None example_client =
               Some (Inl (RetryError (ClientResponseError 500 ''HTTP 500'')), c')
         \<and> length (sent c') = 3 \<and> requests (stats c') = 3 \<and> errors (stats c') = 3)"
proof -
  have h1: "\<forall>i<3. \<exists>t r. always_500 (length (sent example_client) + i) = Reply t r
        \<and> 400 \<le> status r \<and> status r \<noteq> 429"
    by (simp add: always_500_def bare_500_def)
  have h2: "always_500 (length (sent example_client) + 2) = Reply 1 bare_500"
    by (simp add: always_500_def)
  have "\<exists>c'. make_request always_500 ''/health'' ''GET'' None example_client =
               Some (Inl (RetryError (ClientResponseError 500 ''HTTP 500'')), c')
         \<and> length (sent c') = 3 \<and> requests (stats c') = 3 \<and> errors (stats c') = 3"
    using http_error_is_retried [where tr = always_500 and c = example_client
        and ep = "''/health''" and m = "''GET''" and j = None, OF h1 h2]
    apply (elim exE conjE)
    subgoal for c'
      by (intro exI [of _ c'] conjI)
         (simp_all add: example_client_def ClientStats_def bare_500_def str_int_500)
    done
  then show ?thesis
    by (simp add: always_500_def bare_500_def)
qed

subsection \<open>API errors\<close>

text \<open>
  C8: a response with a successful status (below 400) whose envelope has
  \<open>success = false\<close> makes the call surface \<^verbatim>\<open>RuntimeError\<close> with the text \<open>API Error:\<close>
  followed by the message of the envelope (\<open>Unknown API error\<close> when the envelope has
  none). The request is not sent again: exactly one exchange is made. \<open>errors\<close> is
  incremented by 1 and \<open>retries\<close> is unchanged.
\<close>

theorem api_error_not_retried:
  assumes "tr (length (sent c)) = Reply t r"
    and "status r < 400"
    and "success (body r) = Some False"
  shows "\<exists>c'. make_request tr ep m j c =
               Some (Inl (RuntimeError (''API Error: '' @
                       (case error (body r) of
                          None \<Rightarrow> ''Unknown API error''
                        | Some ed \<Rightarrow>
                            (case message ed of
                               None \<Rightarrow> ''Unknown API error''
                             | Some msg \<Rightarrow> msg)))), c')
           \<and> sent c' = sent c @ [\<lparr>req_method = m, req_url = base_url c @ ep, req_json = j\<rparr>]
           \<and> requests (stats c') = requests (stats c) + 1
           \<and> errors (stats c') = errors (stats c) + 1
           \<and> retries (stats c') = retries (stats c)"
  unfolding make_request_def attempt_api_error [where tr = tr and c = c, OF assms]
    error_message_def
  by simp

theorem api_error_not_retried_witness:
  "api_error (length (sent example_client)) = Reply 3 api_error_response
   \<and> status api_error_response < 400
   \<and> success (body api_error_response) = Some False
   \<and> (\<exists>c'. make_request api_error ''/search-knowledge'' ''POST''
                 (Some (search_knowledge_data [] (- 1) 2 None None)) example_client =
               Some (Inl (RuntimeError ''API Error: limit must be positive''), c')
         \<and> length (sent c') = 1 \<and> requests (stats c') = 1 \<and> errors (stats c') = 1
         \<and> retries (stats c') = 0)"
proof -
  have h1: "api_error (length (sent example_client)) = Reply 3 api_error_response"
    by (simp add: api_error_def)
  have h2: "status api_error_response < 400"
    by (simp add: api_error_response_def)
  have h3: "success (body api_error_response) = Some False"
    by (simp add: api_error_response_def)
  have "\<exists>c'. make_request api_error ''/search-knowledge'' ''POST''
                 (Some (search_knowledge_data [] (- 1) 2 None None)) example_client =
               Some (Inl (RuntimeError ''API Error: limit must be positive''), c')
         \<and> length (sent c') = 1 \<and> requests (stats c') = 1 \<and> errors (stats c') = 1
         \<and> retries (stats c') = 0"
    using api_error_not_retried [where tr = api_error and c = example_client
        and ep = "''/search-knowledge''" and m = "''POST''"
        and j = "Some (search_knowledge_data [] (- 1) 2 None None)", OF h1 h2 h3]
    apply (elim exE conjE)
    subgoal for c'
      by (intro exI [of _ c'] conjI)
         (simp_all add: api_error_response_def example_client_def ClientStats_def)
    done
  with h1 h2 h3 show ?thesis
    by simp
qed

subsection \<open>Durations\<close>

text \<open>
  C7 says that the duration of every attempt is added to \<open>total_time\<close> exactly once. The
  code adds it on line 119 when the response has arrived, and the \<^verbatim>\<open>except\<close> block adds
  the elapsed time again on line 150 for every exception raised after that line. At a
  response with a successful status and \<open>success = false\<close> that arrives after \<open>t\<close> time
  units, the call makes one attempt, the clock advances by \<open>t\<close>, and \<open>total_time\<close> grows
  by \<open>2 * t\<close>.
\<close>

theorem api_error_duration_added_twice:
  assumes "tr (length (sent c)) = Reply t r"
    and "status r < 400"
    and "success (body r) = Some False"
  shows "\<exists>e c'. make_request tr ep m j c = Some (Inl e, c')
           \<and> length (sent c') = length (sent c) + 1
           \<and> now c' - now c = t
           \<and> total_time (stats c') = total_time (stats c) + 2 * t"
  using attempt_api_error [where tr = tr and c = c, OF assms] assms(1)
  by (simp add: make_request_def latency_def)

theorem api_error_duration_added_twice_witness:
  "api_error (length (sent example_client)) = Reply 3 api_error_response
   \<and> status api_error_response < 400
   \<and> success (body api_error_response) = Some False
   \<and> total_time (stats example_client) = 0
   \<and> (\<exists>e c'. make_request api_error ''/health'' ''GET'' None example_client = Some (Inl e, c')
         \<and> length (sent c') = 1 \<and> now c' = 3 \<and> total_time (stats c') = 6)"
proof -
  have h1: "api_error (length (sent example_client)) = Reply 3 api_error_response"
    by (simp add: api_error_def)
  have h2: "status api_error_response < 400"
    by (simp add: api_error_response_def)
  have h3: "success (body api_error_response) = Some False"
    by (simp add: api_error_response_def)
  have "\<exists>e c'. make_request api_error ''/health'' ''GET'' None example_client = Some (Inl e, c')
         \<and> length (sent c') = 1 \<and> now c' = 3 \<and> total_time (stats c') = 6"
    using api_error_duration_added_twice [where tr = api_error and c = example_client
        and ep = "''/health''" and m = "''GET''" and j = None, OF h1 h2 h3]
    apply (elim exE conjE)
    subgoal for e c'
      by (intro exI [of _ e] exI [of _ c'] conjI)
         (simp_all add: example_client_def ClientStats_def)
    done
  with h1 h2 h3 show ?thesis
    by (simp add: example_client_def ClientStats_def)
qed

subsection \<open>The Retry-After header\<close>

text \<open>
  C6 says that a 429 response whose \<^verbatim>\<open>Retry-After\<close> header is not an integer is waited
  out for the default of 60 time units and never raises. The code gives the default only
  to an absent header: a header that \<^verbatim>\<open>int()\<close> refuses makes the call surface the
  \<^verbatim>\<open>ValueError\<close> of the conversion after one exchange, without sleeping or resubmitting;
  \<open>retries\<close> is unchanged and \<open>errors\<close> is incremented.
\<close>

theorem unparsable_retry_after_raises:
  assumes "tr (length (sent c)) = Reply t r"
    and "status r = 429"
    and "retry_after r = Some s"
    and "py_int s = Inl e"
  shows "\<exists>c'. make_request tr ep m j c = Some (Inl e, c')
           \<and> sent c' = sent c @ [\<lparr>req_method = m, req_url = base_url c @ ep, req_json = j\<rparr>]
           \<and> now c' = now c + t
           \<and> retries (stats c') = retries (stats c)
           \<and> errors (stats c') = errors (stats c) + 1"
proof -
  have bad: "retry_after_seconds r = Inl e"
    using assms(3,4) by (simp add: retry_after_seconds_def)
  from attempt_rate_limited_bad_header [where tr = tr and c = c, OF assms(1,2) bad] assms(1)
  show ?thesis
    by (simp add: make_request_def latency_def)
qed

theorem unparsable_retry_after_raises_witness:
  "http_date_retry_after (length (sent example_client)) = Reply 1 http_date_response
   \<and> status http_date_response = 429
   \<and> retry_after http_date_response = Some ''Wed, 21 Oct 2015 07:28:00 GMT''
   \<and> (\<exists>c'. make_request http_date_retry_after ''/health'' ''GET'' None example_client =
               Some (Inl (ValueError (''invalid literal for int() with base 10: ''
                       @ [CHR 0x27] @ ''Wed, 21 Oct 2015 07:28:00 GMT'' @ [CHR 0x27])), c')
         \<and> length (sent c') = 1 \<and> now c' = 1 \<and> retries (stats c') = 0
         \<and> errors (stats c') = 1)"
proof -
  have h1: "http_date_retry_after (length (sent example_client)) = Reply 1 http_date_response"
    by (simp add: http_date_retry_after_def example_client_def)
  have h2: "status http_date_response = 429"
    by (simp add: http_date_response_def)
  have h3: "retry_after http_date_response = Some ''Wed, 21 Oct 2015 07:28:00 GMT''"
    by (simp add: http_date_response_def)
  have "\<exists>c'. make_request http_date_retry_after ''/health'' ''GET'' None example_client =
               Some (Inl (ValueError (''invalid literal for int() with base 10: ''
                       @ [CHR 0x27] @ ''Wed, 21 Oct 2015 07:28:00 GMT'' @ [CHR 0x27])), c')
         \<and> length (sent c') = 1 \<and> now c' = 1 \<and> retries (stats c') = 0
         \<and> errors (stats c') = 1"
    using unparsable_retry_after_raises [where tr = http_date_retry_after
        and c = example_client and ep = "''/health''" and m = "''GET''" and j = None,
        OF h1 h2 h3 py_int_http_date]
    apply (elim exE conjE)
    subgoal for c'
      by (intro exI [of _ c'] conjI)
         (simp_all add: example_client_def ClientStats_def)
    done
  with h1 h2 h3 show ?thesis
    by simp
qed

subsection \<open>Batches\<close>

lemma fst_set_enumerate: "fst ` set (enumerate 0 xs) = {0..<length xs}"
  using map_fst_enumerate [of 0 xs] by (metis add_0 list.set_map set_upt)

lemma sched_inv_start: "sched_inv items processor v (start v items)"
  unfolding sched_inv_def start_def pending_def
  by (auto simp: fst_set_enumerate in_set_enumerate_eq)

lemma sched_inv_finish_one:
  assumes "sched_inv items processor v s"
  shows "sched_inv items processor v (finish_one processor s)"
proof (cases "running s")
  case Nil
  then show ?thesis using assms by (simp add: finish_one_def)
next
  case (Cons t rs)
  obtain i x where t: "t = (i, x)" by (cases t)
  show ?thesis
    using assms Cons t
    apply (simp add: finish_one_def sched_inv_def pending_def)
    apply (intro conjI)
    apply (auto simp: nth_list_update image_iff)
    done
qed

lemma sched_inv_admit:
  assumes "sched_inv items processor v s" "waiting s = t # ts" "0 < sem s"
  shows "sched_inv items processor v
           (s\<lparr>sem := sem s - 1, waiting := ts, running := running s @ [t]\<rparr>)"
  using assms
  by (simp add: sched_inv_def pending_def)

lemma sched_inv_step:
  assumes "sched_inv items processor v s"
  shows "sched_inv items processor v (step processor s)"
proof (cases "waiting s")
  case Nil
  then show ?thesis
    using sched_inv_finish_one [OF assms] by (simp add: step_def)
next
  case (Cons t ts)
  show ?thesis
  proof (cases "0 < sem s")
    case True
    with sched_inv_admit [OF assms Cons] show ?thesis
      by (simp add: step_def Cons)
  next
    case False
    then show ?thesis
      using sched_inv_finish_one [OF assms] by (simp add: step_def Cons)
  qed
qed

lemma not_done_pending:
  assumes "sched_inv items processor v s" "\<not> gather_done s"
  shows "waiting s \<noteq> [] \<or> running s \<noteq> []"
proof (rule ccontr)
  assume "\<not> ?thesis"
  then have e: "pending s = {}"
    by (simp add: pending_def)
  from assms(2) obtain x where "x \<in> set (slots s)" "x = None"
    by (auto simp: gather_done_def list_all_iff)
  then obtain i where "i < length (slots s)" "slots s ! i = None"
    by (auto simp: in_set_conv_nth)
  with assms(1) e show False
    by (auto simp: sched_inv_def)
qed

lemma step_decreases:
  assumes "sched_inv items processor v s" "\<not> gather_done s" "0 < v"
  shows "work_left (step processor s) < work_left s"
proof (cases "waiting s")
  case Nil
  with not_done_pending [OF assms(1,2)] obtain t rs where "running s = t # rs"
    by (cases "running s") auto
  with Nil show ?thesis
    by (cases t) (simp add: step_def finish_one_def work_left_def)
next
  case (Cons t ts)
  show ?thesis
  proof (cases "0 < sem s")
    case True
    then show ?thesis
      by (simp add: step_def Cons work_left_def)
  next
    case False
    with assms(1,3) have "running s \<noteq> []"
      by (auto simp: sched_inv_def)
    then obtain u rs where "running s = u # rs"
      by (cases "running s") auto
    with False Cons show ?thesis
      by (cases u) (simp add: step_def finish_one_def work_left_def)
  qed
qed

lemma event_loop_terminates:
  assumes "sched_inv items processor v s" "0 < v"
  shows "\<exists>s'. event_loop processor s = Some s' \<and> sched_inv items processor v s'
              \<and> gather_done s'"
  using assms(1)
proof (induction "work_left s" arbitrary: s rule: less_induct)
  case less
  show ?case
  proof (cases "gather_done s")
    case True
    with less.prems show ?thesis
      by (subst event_loop.simps) simp
  next
    case False
    from less.hyps [OF step_decreases [OF less.prems False assms(2)]
        sched_inv_step [OF less.prems]]
    show ?thesis
      using False by (subst event_loop.simps) simp
  qed
qed

lemma done_slots:
  assumes "sched_inv items processor v s" "gather_done s"
  shows "slots s = map (\<lambda>i. Some (Dict (process_item processor (items ! i) i)))
                     [0..<length items]"
proof (rule nth_equalityI)
  show "length (slots s) =
          length (map (\<lambda>i. Some (Dict (process_item processor (items ! i) i)))
                    [0..<length items])"
    using assms(1) by (simp add: sched_inv_def)
next
  fix i
  assume "i < length (slots s)"
  then have i: "i < length items"
    using assms(1) by (simp add: sched_inv_def)
  from assms(2) \<open>i < length (slots s)\<close> have "slots s ! i \<noteq> None"
    by (auto simp: gather_done_def list_all_iff)
  with assms(1) i have "slots s ! i = Some (Dict (process_item processor (items ! i) i))"
    by (auto simp: sched_inv_def split: if_splits)
  with i show "slots s ! i =
      map (\<lambda>i. Some (Dict (process_item processor (items ! i) i))) [0..<length items] ! i"
    by simp
qed

lemma done_invoked:
  assumes "sched_inv items processor v s" "gather_done s"
  shows "distinct (invoked s) \<and> set (invoked s) = {0..<length items}"
proof -
  have "i \<notin> pending s" if "i < length items" for i
  proof
    assume "i \<in> pending s"
    with assms(1) that have "slots s ! i = None" "i < length (slots s)"
      by (auto simp: sched_inv_def)
    then have "None \<in> set (slots s)"
      by (metis nth_mem)
    with assms(2) show False
      by (auto simp: gather_done_def list_all_iff)
  qed
  with assms(1) show ?thesis
    by (auto simp: sched_inv_def)
qed

lemma gather_results_done:
  assumes "sched_inv items processor v s" "gather_done s"
  shows "gather_results s =
           map (\<lambda>i. Dict (process_item processor (items ! i) i)) [0..<length items]"
proof -
  have "concat (map (\<lambda>x. case x of None \<Rightarrow> [] | Some g \<Rightarrow> [g]) (map (\<lambda>i. Some (h i)) xs)) =
          map h xs" for h :: "nat \<Rightarrow> 'c gathered" and xs
    by (induction xs) simp_all
  then show ?thesis
    by (simp add: gather_results_def done_slots [OF assms])
qed

lemma categorize_dicts:
  "categorize (map Dict ds) acc =
     \<lparr>br_results = br_results acc @ filter item_success ds,
      br_errors = br_errors acc @ map FailedItem (filter (\<lambda>d. \<not> item_success d) ds)\<rparr>"
  by (induction ds arbitrary: acc) simp_all

lemma process_batch_positive:
  assumes "0 < concurrency"
  shows "process_batch items processor concurrency =
           Some (Inr \<lparr>br_results = filter item_success (item_dicts items processor),
                      br_errors = map FailedItem
                        (filter (\<lambda>d. \<not> item_success d) (item_dicts items processor))\<rparr>)"
proof -
  have v: "0 < nat concurrency"
    using assms by simp
  from event_loop_terminates [OF sched_inv_start v]
  obtain s' where s': "event_loop processor (start (nat concurrency) items) = Some s'"
    "sched_inv items processor (nat concurrency) s'" "gather_done s'"
    by blast
  have "gather_results s' = map Dict (item_dicts items processor)"
    by (simp add: gather_results_done [OF s'(2,3)] item_dicts_def)
  then show ?thesis
    using assms s'(1) by (simp add: process_batch_def Semaphore_def categorize_dicts)
qed

lemma item_index_process_item [simp]: "item_index (process_item processor x i) = i"
  by (simp add: process_item_def split: completion.splits)

lemma map_item_index_dicts: "map item_index (item_dicts items processor) = [0..<length items]"
  by (simp add: item_dicts_def map_idI)

lemma partition_indices:
  assumes "distinct (map f xs)"
  shows "distinct (map f (filter P xs) @ map f (filter (\<lambda>x. \<not> P x) xs))
         \<and> set (map f (filter P xs) @ map f (filter (\<lambda>x. \<not> P x) xs)) = set (map f xs)"
  using assms by (induction xs) auto

lemma map_filter_failed_items:
  "List.map_filter error_index (map FailedItem ds) = map item_index ds"
  by (induction ds) (simp_all add: List.map_filter_simps)

lemma event_loop_returns_not_stuck:
  assumes "event_loop processor s = Some y"
  shows "\<not> (step processor s = s \<and> \<not> gather_done s)"
proof (rule event_loop.raw_induct
    [where P = "\<lambda>p s y. \<not> (step p s = s \<and> \<not> gather_done s)", OF _ assms])
  fix f :: "('a \<Rightarrow> nat \<Rightarrow> 'b completion) \<Rightarrow> ('a, 'b) sched \<Rightarrow> ('a, 'b) sched option"
    and p s y
  assume IH: "\<And>p s y. f p s = Some y \<Longrightarrow> \<not> (step p s = s \<and> \<not> gather_done s)"
    and unfold: "(if gather_done s then Some s else f p (step p s)) = Some y"
  show "\<not> (step p s = s \<and> \<not> gather_done s)"
  proof
    assume st: "step p s = s \<and> \<not> gather_done s"
    with unfold have "f p s = Some y"
      by simp
    from IH [OF this] st show False
      by simp
  qed
qed

lemma event_loop_stuck:
  assumes "step processor s = s" "\<not> gather_done s"
  shows "event_loop processor s = None"
  using event_loop_returns_not_stuck [of processor s] assms
  by (cases "event_loop processor s") auto

lemma step_start_zero: "step processor (start 0 items) = start 0 items"
  by (simp add: step_def finish_one_def start_def split: list.splits)

lemma steps_start_zero: "(step processor ^^ n) (start 0 items) = start 0 items"
  by (induction n) (simp_all add: step_start_zero)

lemma process_batch_negative:
  "concurrency < 0 \<Longrightarrow>
   process_batch items processor concurrency =
     Some (Inl (ValueError ''Semaphore initial value must be >= 0''))"
  by (simp add: process_batch_def Semaphore_def)

lemma process_batch_zero_empty:
  "process_batch [] processor 0 = Some (Inr \<lparr>br_results = [], br_errors = []\<rparr>)"
  by (subst process_batch_def, subst event_loop.simps)
     (simp add: Semaphore_def start_def gather_done_def gather_results_def)

lemma process_batch_zero_hangs:
  fixes processor :: "'a \<Rightarrow> nat \<Rightarrow> 'r completion"
  assumes "items \<noteq> []"
  shows "process_batch items processor 0 = None"
proof -
  have "\<not> gather_done (start 0 items :: ('a, 'r) sched)"
    using assms by (cases items) (simp_all add: gather_done_def start_def)
  then have "event_loop processor (start 0 items) = None"
    by (rule event_loop_stuck [OF step_start_zero])
  then show ?thesis
    by (simp add: process_batch_def Semaphore_def)
qed

lemma flaky_batch:
  "process_batch [''a'', ''b'', ''c''] flaky 2 =
     Some (Inr \<lparr>br_results = [ItemSuccess 0 ''aa'', ItemSuccess 2 ''cc''],
                br_errors = [FailedItem (ItemFailure 1 ''boom'')]\<rparr>)"
  by (simp add: process_batch_positive item_dicts_def process_item_def flaky_def upt_rec)

text \<open>
  C4: with a positive concurrency limit, \<^verbatim>\<open>process_batch\<close> returns, for every list of
  items and every per-item operation (one that returns or raises an \<^verbatim>\<open>Exception\<close>),
  and the result accounts for every item exactly once: successes and failures together
  are as many as the items, every failure entry carries an index, and the indices of
  both lists are exactly \<open>0, ..., N - 1\<close> without repetition. An item whose operation
  raises is in the failures with its message, an item whose operation returns is in the
  successes with its value, and the operation was invoked once for every index, so no
  failure keeps another item from being attempted.
\<close>

theorem process_batch_accounts_for_every_item:
  assumes "0 < concurrency"
  shows "\<exists>res. process_batch items processor concurrency = Some (Inr res)
           \<and> length (br_results res) + length (br_errors res) = length items
           \<and> None \<notin> set (map error_index (br_errors res))
           \<and> distinct (map item_index (br_results res)
                        @ List.map_filter error_index (br_errors res))
           \<and> set (map item_index (br_results res)
                   @ List.map_filter error_index (br_errors res)) = {0..<length items}
           \<and> (\<forall>i<length items.
                 case processor (items ! i) i of
                   Returned r \<Rightarrow> ItemSuccess i r \<in> set (br_results res)
                 | Raised e \<Rightarrow> FailedItem (ItemFailure i e) \<in> set (br_errors res))
           \<and> (\<exists>s'. event_loop processor (start (nat concurrency) items) = Some s'
                 \<and> distinct (invoked s') \<and> set (invoked s') = {0..<length items})"
proof -
  define ds where "ds = item_dicts items processor"
  define res where
    "res = \<lparr>br_results = filter item_success ds,
            br_errors = map FailedItem (filter (\<lambda>d. \<not> item_success d) ds)\<rparr>"
  have r: "process_batch items processor concurrency = Some (Inr res)"
    by (simp add: process_batch_positive [OF assms] res_def ds_def)
  have idx: "map item_index ds = [0..<length items]"
    by (simp add: ds_def map_item_index_dicts)
  then have d: "distinct (map item_index ds)"
    by simp
  have len: "length (br_results res) + length (br_errors res) = length items"
    using sum_length_filter_compl [of item_success ds] idx
    by (simp add: res_def) (metis length_map length_upt minus_nat.diff_0)
  have noidx: "None \<notin> set (map error_index (br_errors res))"
    by (auto simp: res_def)
  have part: "distinct (map item_index (br_results res)
                        @ List.map_filter error_index (br_errors res))"
    "set (map item_index (br_results res)
                   @ List.map_filter error_index (br_errors res)) = {0..<length items}"
    using partition_indices [OF d, of item_success] idx
    by (simp_all add: res_def map_filter_failed_items)
  have each: "case processor (items ! i) i of
                   Returned r \<Rightarrow> ItemSuccess i r \<in> set (br_results res)
                 | Raised e \<Rightarrow> FailedItem (ItemFailure i e) \<in> set (br_errors res)"
    if "i < length items" for i
  proof -
    have "process_item processor (items ! i) i \<in> set ds"
      using that by (auto simp: ds_def item_dicts_def)
    then show ?thesis
      by (auto simp: res_def process_item_def split: completion.splits)
  qed
  have v: "0 < nat concurrency"
    using assms by simp
  from event_loop_terminates [OF sched_inv_start v]
  obtain s' where s': "event_loop processor (start (nat concurrency) items) = Some s'"
    "sched_inv items processor (nat concurrency) s'" "gather_done s'"
    by blast
  from done_invoked [OF s'(2,3)] s'(1)
  have inv: "\<exists>s'. event_loop processor (start (nat concurrency) items) = Some s'
                 \<and> distinct (invoked s') \<and> set (invoked s') = {0..<length items}"
    by blast
  from r len noidx part each inv show ?thesis
    by blast
qed

theorem process_batch_accounts_for_every_item_witness:
  "(0 :: int) < 2
   \<and> process_batch [''a'', ''b'', ''c''] flaky 2 =
       Some (Inr \<lparr>br_results = [ItemSuccess 0 ''aa'', ItemSuccess 2 ''cc''],
                  br_errors = [FailedItem (ItemFailure 1 ''boom'')]\<rparr>)
   \<and> (\<exists>res. process_batch [''a'', ''b'', ''c''] flaky 2 = Some (Inr res)
         \<and> length (br_results res) + length (br_errors res) = 3
         \<and> set (map item_index (br_results res)
                 @ List.map_filter error_index (br_errors res)) = {0..<3})"
proof -
  have h: "(0 :: int) < 2"
    by simp
  have "\<exists>res. process_batch [''a'', ''b'', ''c''] flaky 2 = Some (Inr res)
         \<and> length (br_results res) + length (br_errors res) = 3
         \<and> set (map item_index (br_results res)
                 @ List.map_filter error_index (br_errors res)) = {0..<3}"
    using process_batch_accounts_for_every_item [OF h, of "[''a'', ''b'', ''c'']" flaky]
    apply (elim exE conjE)
    subgoal for res s'
      by (intro exI [of _ res] conjI) (simp_all add: eval_nat_numeral)
    done
  with flaky_batch show ?thesis
    by simp
qed

text \<open>
  C5, as the spec states it: a limit of 0 or less fails fast with a configuration error.
  It fails at 0, which \<^verbatim>\<open>asyncio.Semaphore\<close> accepts: with no items the call returns
  the empty result, and with two items it never returns, since no task can ever
  acquire the semaphore.
\<close>

theorem fail_fast_counterexample:
  "process_batch [] flaky 0 = Some (Inr \<lparr>br_results = [], br_errors = []\<rparr>)
   \<and> process_batch [''a'', ''b''] flaky 0 = None"
  by (simp add: process_batch_zero_empty process_batch_zero_hangs)

text \<open>
  C5, amended: for every negative concurrency limit \<^verbatim>\<open>process_batch\<close> raises the
  \<^verbatim>\<open>ValueError\<close> of the semaphore constructor, before any task exists. For the limit 0
  no error is raised: the call returns the empty result when there are no items and
  never returns when there is at least one. In both cases no item's operation is ever
  invoked: the log of invocations stays empty at every step of the event loop.
\<close>

theorem nonpositive_concurrency:
  "(concurrency < 0 \<longrightarrow>
      process_batch items processor concurrency =
        Some (Inl (ValueError ''Semaphore initial value must be >= 0'')))
   \<and> process_batch [] processor 0 = Some (Inr \<lparr>br_results = [], br_errors = []\<rparr>)
   \<and> (items \<noteq> [] \<longrightarrow> process_batch items processor 0 = None)
   \<and> (\<forall>n. invoked ((step processor ^^ n) (start 0 items)) = [])"
  by (simp add: process_batch_negative process_batch_zero_empty process_batch_zero_hangs
      steps_start_zero)
     (simp add: start_def)

theorem nonpositive_concurrency_witness:
  "process_batch [''a'', ''b''] flaky (- 1) =
     Some (Inl (ValueError ''Semaphore initial value must be >= 0''))
   \<and> process_batch [''a'', ''b''] flaky 0 = None
   \<and> invoked ((step flaky ^^ 5) (start 0 [''a'', ''b''])) = []"
  using nonpositive_concurrency [of "- 1" "[''a'', ''b'']" flaky]
    nonpositive_concurrency [of 0 "[''a'', ''b'']" flaky]
  by simp

end
